theory Spec2Isabelle
  imports Complex_Main "HOL-Library.Multiset"
begin

section \<open>JavaScript values used by the city controller\<close>

text \<open>
  A JavaScript number is a double: not-a-number, one of the two infinities, or a finite
  value. Finite values are modelled as exact reals (rounding and the sign of zero are
  abstracted away).
\<close>

datatype jsnum = NaN | NegInf | Fin real | PosInf

text \<open>The relational operator \<open><=\<close> on numbers: false as soon as one side is NaN.\<close>

fun js_le :: "jsnum \<Rightarrow> jsnum \<Rightarrow> bool" where
  "js_le NaN _ = False"
| "js_le _ NaN = False"
| "js_le NegInf _ = True"
| "js_le _ PosInf = True"
| "js_le (Fin x) (Fin y) = (x \<le> y)"
| "js_le (Fin x) NegInf = False"
| "js_le PosInf (Fin y) = False"
| "js_le PosInf NegInf = False"

text \<open>\<open>Math.min(a, b)\<close>: NaN when an argument is NaN, otherwise the smaller one.\<close>

fun Math_min :: "jsnum \<Rightarrow> jsnum \<Rightarrow> jsnum" where
  "Math_min NaN _ = NaN"
| "Math_min _ NaN = NaN"
| "Math_min a b = (if js_le a b then a else b)"

text \<open>
  A value read from a statistics property: a number, or \<open>null\<close> where the statistic
  is not available. Multiplying by a number converts \<open>null\<close> to 0.
\<close>

datatype jsval = Null | Num real

fun toNumber :: "jsval \<Rightarrow> real" where
  "toNumber Null = 0"
| "toNumber (Num x) = x"

text \<open>
  The outcome of a request handler: \<open>res.status(s).json(b)\<close>,
  \<open>response.handleError(res, s)(msg)\<close> or \<open>response.validationError(res)(msg)\<close>.
\<close>

datatype 'b response = Json nat 'b | HandleError nat string | ValidationError string

text \<open>
  The query string of a request (\<open>req.query\<close>): every parameter is a string, or
  absent. \<open>params_name\<close> is the route parameter \<open>req.params.name\<close>.
\<close>

record request =
  query_q :: "string option"
  query_radius :: "string option"
  query_limit :: "string option"
  query_min_living_space :: "string option"
  query_max_living_space :: "string option"
  query_no_rooms :: "string option"
  query_has_neighborhoods :: "string option"
  query_indicator :: "string option"
  params_name :: "string option"

section \<open>City records\<close>

text \<open>
  The statistics of a region, as the API documentation of the controller lists them.
  \<open>None\<close> stands for a statistic that is \<open>null\<close>.
\<close>

record stats =
  total :: nat
  avgPricePerSqm :: real
  stdErr :: "real option"
  inequalityIndex :: "real option"

text \<open>
  A city of the collection: its statistics, the properties the controller reads
  (\<open>name\<close>, \<open>ranked\<close>) or deletes (\<open>months\<close>, \<open>neighborhoods\<close>, \<open>deciles\<close>;
  \<open>None\<close> is an absent property), and all remaining properties (coordinates,
  country, slug, snapshot) in \<open>other\<close>.
\<close>

record ('n, 'm, 'o) city = stats +
  name :: string
  ranked :: bool
  months :: "'m option"
  neighborhoods :: "'n option"
  deciles :: "real list option"
  other :: 'o

section \<open>Ranking of the cities\<close>

text \<open>
  \<open>exports.ranking\<close>: the indicator of the request is kept when it is one of the three
  names of \<open>indicators\<close>, and replaced by \<open>avgPricePerSqm\<close> otherwise, so the property
  read by \<open>c[indicator]\<close> is always one of three.
\<close>

datatype indicator = AvgPricePerSqm | Total | InequalityIndex

definition indicators :: "(string \<times> indicator) list" where
  "indicators = [(''avgPricePerSqm'', AvgPricePerSqm), (''total'', Total),
                 (''inequalityIndex'', InequalityIndex)]"

definition chooseIndicator :: "string option \<Rightarrow> indicator" where
  "chooseIndicator i =
     (case i of
        None \<Rightarrow> AvgPricePerSqm
      | Some s \<Rightarrow> (case map_of indicators s of Some k \<Rightarrow> k | None \<Rightarrow> AvgPricePerSqm))"

fun indicatorValue :: "indicator \<Rightarrow> ('n, 'm, 'o) city \<Rightarrow> jsval" where
  "indicatorValue AvgPricePerSqm c = Num (avgPricePerSqm c)"
| "indicatorValue Total c = Num (real (total c))"
| "indicatorValue InequalityIndex c =
     (case inequalityIndex c of None \<Rightarrow> Null | Some v \<Rightarrow> Num v)"

text \<open>
  The chain \<open>filter('ranked')\<close>, \<open>sortBy(c => -1 * c[indicator])\<close>,
  \<open>map(c => [c.name, c[indicator]])\<close> over \<open>cities.toArray()\<close>. Lodash's
  \<open>sortBy\<close> is a stable ascending sort by the key, as \<^const>\<open>sort_key\<close> is.
\<close>

definition ranking ::
  "('n, 'm, 'o) city list \<Rightarrow> request \<Rightarrow> (string \<times> jsval) list response" where
  "ranking cities req =
     (let indicator = chooseIndicator (query_indicator req);
          ranking = map (\<lambda>c. (name c, indicatorValue indicator c))
                      (sort_key (\<lambda>c. -1 * toNumber (indicatorValue indicator c))
                         (filter ranked cities))
      in Json 200 ranking)"

text \<open>A region with a name, an average price and a ranking flag, for concrete rankings.\<close>

definition region :: "string \<Rightarrow> real \<Rightarrow> bool \<Rightarrow> (unit, unit, unit) city" where
  "region n p r =
     \<lparr>total = 0, avgPricePerSqm = p, stdErr = None, inequalityIndex = None,
      name = n, ranked = r, months = None, neighborhoods = None, deciles = None,
      other = ()\<rparr>"

definition indicatorRequest :: "string option \<Rightarrow> request" where
  "indicatorRequest i =
     \<lparr>query_q = None, query_radius = None, query_limit = None,
      query_min_living_space = None, query_max_living_space = None,
      query_no_rooms = None, query_has_neighborhoods = None,
      query_indicator = i, params_name = None\<rparr>"

section \<open>Statistics about a location\<close>

subsection \<open>Strings of the query\<close>

text \<open>\<open>s.split(',')\<close>: the parts between commas; the empty string has one empty part.\<close>

fun split_comma :: "string \<Rightarrow> string list" where
  "split_comma [] = [[]]"
| "split_comma (c # cs) =
     (if c = CHR '','' then [] # split_comma cs
      else (case split_comma cs of [] \<Rightarrow> [[c]] | w # ws \<Rightarrow> (c # w) # ws))"

text \<open>
  Lodash's \<open>_.trim\<close> removes the whitespace at both ends (the whitespace of the ASCII
  range: tab, line feed, vertical tab, form feed, carriage return, space).
\<close>

definition isSpace :: "char \<Rightarrow> bool" where
  "isSpace c = (c \<in> set [CHR 0x09, CHR 0x0A, CHR 0x0B, CHR 0x0C, CHR 0x0D, CHR '' ''])"

definition trim :: "string \<Rightarrow> string" where
  "trim s = rev (dropWhile isSpace (rev (dropWhile isSpace s)))"

text \<open>
  The value of \<open>req.query.x || d\<close>: the string of the query when it is present and not
  empty, the number \<open>d\<close> otherwise.
\<close>

datatype jsarg = S string | N jsnum

definition orDefault :: "string option \<Rightarrow> jsnum \<Rightarrow> jsarg" where
  "orDefault v d = (case v of None \<Rightarrow> N d | Some s \<Rightarrow> if s = [] then N d else S s)"

text \<open>A string of the query is truthy when it is present and not empty.\<close>

definition truthy :: "string option \<Rightarrow> bool" where
  "truthy v = (case v of None \<Rightarrow> False | Some s \<Rightarrow> s \<noteq> [])"

subsection \<open>Collaborators of the controller\<close>

text \<open>
  A place of the OpenStreetMap geocoder, with the four fields the controller copies.
\<close>

record osm_place =
  osm_lat :: string
  osm_lon :: string
  osm_display_name :: string
  osm_type :: string

text \<open>
  What the controller calls and this repository's sources do not define here, taken as
  parameters:
  \<^item> \<open>Number\<close>: the conversion of a string to a number of the language (\<open>Number(s)\<close>,
    also behind \<open>isNaN(s)\<close>, \<open>Math.min(s, 20)\<close> and \<open>s * 1\<close>);
  \<^item> \<open>paginator_offset\<close>: \<open>paginator.offset(req)\<close>, the pair of \<open>offset\<close> and
    \<open>limit\<close>;
  \<^item> \<open>slug\<close> and \<open>fuzzy_test\<close>: the libraries \<open>slug\<close> and \<open>fuzzy.test\<close>;
  \<^item> \<open>docs_center\<close>, \<open>docs_getStats\<close>, \<open>docs_deciles\<close>: the three functions of
    \<open>doc.model\<close>. \<open>docs_center\<close> and \<open>docs_deciles\<close> return promises: \<open>Inl\<close> is a
    rejection; for \<open>docs_getStats\<close>, \<open>Inl\<close> is an exception thrown;
  \<^item> \<open>nominatim\<close>: the request to the geocoder, \<open>None\<close> when it fails or its body
    is not an array.
\<close>

record helpers =
  Number :: "string \<Rightarrow> jsnum"
  paginator_offset :: "request \<Rightarrow> int \<times> int"
  slug :: "string \<Rightarrow> string"
  fuzzy_test :: "string \<Rightarrow> string \<Rightarrow> bool"

record ('r, 's) services = helpers +
  docs_center :: "jsnum \<Rightarrow> jsnum \<Rightarrow> jsnum \<Rightarrow> jsarg \<Rightarrow> jsarg \<Rightarrow> jsnum list option
                    \<Rightarrow> string option \<Rightarrow> string + 'r"
  docs_getStats :: "'r \<Rightarrow> jsnum \<Rightarrow> bool \<Rightarrow> string + 's"
  docs_deciles :: "'r \<Rightarrow> string + jsnum list"
  nominatim :: "string \<Rightarrow> osm_place list option"

text \<open>The calls made to \<open>doc.model\<close> while a request is served, in order.\<close>

datatype 'r docs_call =
    CallCenter jsnum jsnum jsnum jsarg jsarg "jsnum list option" "string option"
  | CallGetStats 'r jsnum bool
  | CallDeciles 'r

fun isCallCenter :: "'r docs_call \<Rightarrow> bool" where
  "isCallCenter (CallCenter _ _ _ _ _ _ _) = True"
| "isCallCenter _ = False"

text \<open>
  The place sent back: the fields the controller sets, and the statistics copied onto
  it by \<open>_.extend(place, docs.getStats(...))\<close>.
\<close>

record 's place =
  placeRadius :: jsnum
  placeLatitude :: jsnum
  placeLongitude :: jsnum
  placeName :: string
  placeType :: string
  placeDeciles :: "jsnum list"
  placeStats :: "'s option"

subsection \<open>Validation of the parameters\<close>

text \<open>\<open>Number(v)\<close> and \<open>isNaN(v)\<close> for a value that is a string or a number.\<close>

fun argNumber :: "(string \<Rightarrow> jsnum) \<Rightarrow> jsarg \<Rightarrow> jsnum" where
  "argNumber num (S s) = num s"
| "argNumber num (N x) = x"

definition isNaN :: "(string \<Rightarrow> jsnum) \<Rightarrow> jsarg \<Rightarrow> bool" where
  "isNaN num v = (argNumber num v = NaN)"

text \<open>
  \<^verbatim>\<open>var radius = req.query.radius || 20;
radius = isNaN(radius) ? 20 : radius;
radius = Math.min(radius, 20);\<close>
\<close>

definition validRadius :: "(string \<Rightarrow> jsnum) \<Rightarrow> request \<Rightarrow> jsnum" where
  "validRadius num req =
     (let radius = orDefault (query_radius req) (Fin 20);
          radius = (if isNaN num radius then N (Fin 20) else radius)
      in Math_min (argNumber num radius) (Fin 20))"

text \<open>
  \<^verbatim>\<open>var minLivingSpace = req.query.min_living_space || 0;
minLivingSpace = isNaN(minLivingSpace) ? 0 : minLivingSpace;\<close>
  and the same for the maximum, with 200. A string that is a number stays a string.
\<close>

definition validMinLivingSpace :: "(string \<Rightarrow> jsnum) \<Rightarrow> request \<Rightarrow> jsarg" where
  "validMinLivingSpace num req =
     (let minLivingSpace = orDefault (query_min_living_space req) (Fin 0)
      in if isNaN num minLivingSpace then N (Fin 0) else minLivingSpace)"

definition validMaxLivingSpace :: "(string \<Rightarrow> jsnum) \<Rightarrow> request \<Rightarrow> jsarg" where
  "validMaxLivingSpace num req =
     (let maxLivingSpace = orDefault (query_max_living_space req) (Fin 200)
      in if isNaN num maxLivingSpace then N (Fin 200) else maxLivingSpace)"

text \<open>
  \<open>_.chain(s.split(',')).map(_.trim).map(Number).reject(isNaN).value()\<close>: the parts
  that are numbers, in order.
\<close>

definition numbersOf :: "(string \<Rightarrow> jsnum) \<Rightarrow> string \<Rightarrow> jsnum list" where
  "numbersOf num s = filter (\<lambda>x. x \<noteq> NaN) (map num (map trim (split_comma s)))"

definition validNoRooms :: "(string \<Rightarrow> jsnum) \<Rightarrow> request \<Rightarrow> jsnum list option" where
  "validNoRooms num req =
     (if truthy (query_no_rooms req) then Some (numbersOf num (the (query_no_rooms req)))
      else None)"

subsection \<open>The handler\<close>

text \<open>
  \<open>sendCenter\<close>, the closure of \<open>exports.geocode\<close> that gets the rows of a place once
  and computes both the statistics and the deciles from them. Its free variables
  (\<open>radius\<close>, \<open>minLivingSpace\<close>, \<open>maxLivingSpace\<close>, \<open>noRooms\<close>, \<open>req.query.limit\<close>) are
  arguments here. The result is the list of calls made to \<open>doc.model\<close> and the response.
\<close>

definition sendCenter ::
  "('r, 's) services \<Rightarrow> jsnum \<Rightarrow> jsarg \<Rightarrow> jsarg \<Rightarrow> jsnum list option \<Rightarrow> string option
    \<Rightarrow> 's place \<Rightarrow> 'r docs_call list \<times> 's place response" where
  "sendCenter sv radius minLivingSpace maxLivingSpace noRooms limit place =
     (let call1 = CallCenter (placeLatitude place) (placeLongitude place) (placeRadius place)
                    minLivingSpace maxLivingSpace noRooms limit
      in case docs_center sv (placeLatitude place) (placeLongitude place) (placeRadius place)
                minLivingSpace maxLivingSpace noRooms limit of
           Inl err \<Rightarrow> ([call1], HandleError 500 err)
         | Inr rows \<Rightarrow>
             (case docs_getStats sv rows radius True of
                Inl err \<Rightarrow> ([call1, CallGetStats rows radius True], HandleError 500 err)
              | Inr stats \<Rightarrow>
                  (let place = place\<lparr>placeStats := Some stats\<rparr>;
                       calls = [call1, CallGetStats rows radius True, CallDeciles rows]
                   in case docs_deciles sv rows of
                        Inl err \<Rightarrow> (calls, HandleError 500 err)
                      | Inr deciles' \<Rightarrow>
                          (calls, Json 200 (place\<lparr>placeDeciles := deciles'\<rparr>)))))"

text \<open>
  \<open>exports.geocode\<close>. The coordinates are read from \<open>q\<close> when it holds exactly two
  numbers; the geocoder is asked otherwise.
\<close>

definition geocode ::
  "('r, 's) services \<Rightarrow> request \<Rightarrow> 'r docs_call list \<times> 's place response" where
  "geocode sv req =
     (if \<not> truthy (query_q req) then ([], HandleError 400 ''Missing 'q' parameter.'')
      else
        let radius = validRadius (Number sv) req;
            minLivingSpace = validMinLivingSpace (Number sv) req;
            maxLivingSpace = validMaxLivingSpace (Number sv) req;
            noRooms = validNoRooms (Number sv) req;
            latlng = numbersOf (Number sv) (the (query_q req))
        in if length latlng = 2 then
             sendCenter sv radius minLivingSpace maxLivingSpace noRooms (query_limit req)
               \<lparr>placeRadius = radius, placeLatitude = latlng ! 0, placeLongitude = latlng ! 1,
                placeName = ''unkown'', placeType = ''unkown'', placeDeciles = [],
                placeStats = None\<rparr>
           else
             (case nominatim sv (the (query_q req)) of
                Some (b # _) \<Rightarrow>
                  sendCenter sv radius minLivingSpace maxLivingSpace noRooms (query_limit req)
                    \<lparr>placeRadius = radius, placeLatitude = Number sv (osm_lat b),
                     placeLongitude = Number sv (osm_lon b),
                     placeName = osm_display_name b, placeType = osm_type b,
                     placeDeciles = [], placeStats = None\<rparr>
              | _ \<Rightarrow> ([], HandleError 404 ''Not found'')))"

subsection \<open>A concrete environment\<close>

text \<open>
  For running the handler on concrete requests: the conversion to a number restricted
  to decimal integers with an optional minus sign (blank strings are 0, as in the
  language; every other string is NaN here), pages of 50 cities from offset 0, an
  identity \<open>slug\<close>, a prefix test for \<open>fuzzy.test\<close>, and a \<open>doc.model\<close> that returns
  fixed rows, the rows again as statistics and no deciles.
\<close>

definition digitValue :: "char \<Rightarrow> nat option" where
  "digitValue c =
     (let n = (of_char c :: nat) in if 48 \<le> n \<and> n \<le> 57 then Some (n - 48) else None)"

fun digitsValue :: "nat \<Rightarrow> string \<Rightarrow> nat option" where
  "digitsValue acc [] = Some acc"
| "digitsValue acc (c # cs) =
     (case digitValue c of None \<Rightarrow> None | Some d \<Rightarrow> digitsValue (10 * acc + d) cs)"

definition integerNumber :: "string \<Rightarrow> jsnum" where
  "integerNumber s =
     (case trim s of
        [] \<Rightarrow> Fin 0
      | c # cs \<Rightarrow>
          if c = CHR ''-'' then
            (if cs = [] then NaN
             else case digitsValue 0 cs of None \<Rightarrow> NaN | Some n \<Rightarrow> Fin (- real n))
          else (case digitsValue 0 (c # cs) of None \<Rightarrow> NaN | Some n \<Rightarrow> Fin (real n)))"

definition fixedServices :: "'r \<Rightarrow> ('r, 'r) services" where
  "fixedServices rows =
     \<lparr>Number = integerNumber,
      paginator_offset = (\<lambda>req. (0, 50)),
      slug = (\<lambda>s. s),
      fuzzy_test = (\<lambda>pattern s. pattern = take (length pattern) s),
      docs_center = (\<lambda>lat lng radius minLivingSpace maxLivingSpace noRooms limit. Inr rows),
      docs_getStats = (\<lambda>rows radius flag. Inr rows),
      docs_deciles = (\<lambda>rows. Inr []),
      nominatim = (\<lambda>q. None)\<rparr>"

definition geocodeRequest ::
  "string \<Rightarrow> string option \<Rightarrow> string option \<Rightarrow> request" where
  "geocodeRequest q r rooms =
     \<lparr>query_q = Some q, query_radius = r, query_limit = None,
      query_min_living_space = None, query_max_living_space = None,
      query_no_rooms = rooms, query_has_neighborhoods = None,
      query_indicator = None, params_name = None\<rparr>"

section \<open>List of cities and search\<close>

text \<open>
  The cities of the collection are objects shared by all requests, so they live in a
  store: a list of city objects, an object's address being its position. The collection
  (\<open>cities.toArray()\<close>) is the list of the addresses of its cities. A new object is
  allocated at the end of the store.
\<close>

type_synonym addr = nat

type_synonym ('n, 'm, 'o) store = "('n, 'm, 'o) city list"

text \<open>\<open>_.cloneDeep(city)\<close>: a new object with the properties of \<open>city\<close>.\<close>

definition cloneDeep :: "('n, 'm, 'o) store \<Rightarrow> addr \<Rightarrow> ('n, 'm, 'o) store \<times> addr" where
  "cloneDeep h city = (h @ [h ! city], length h)"

text \<open>\<open>INDEX_EXCLUDE\<close> and \<open>delete city[k]\<close> for its three property names.\<close>

datatype property = Months | Neighborhoods | Deciles

definition INDEX_EXCLUDE :: "property list" where
  "INDEX_EXCLUDE = [Months, Neighborhoods, Deciles]"

fun deleteProperty :: "property \<Rightarrow> ('n, 'm, 'o) city \<Rightarrow> ('n, 'm, 'o) city" where
  "deleteProperty Months c = c\<lparr>months := None\<rparr>"
| "deleteProperty Neighborhoods c = c\<lparr>neighborhoods := None\<rparr>"
| "deleteProperty Deciles c = c\<lparr>deciles := None\<rparr>"

definition delete :: "('n, 'm, 'o) store \<Rightarrow> addr \<Rightarrow> property \<Rightarrow> ('n, 'm, 'o) store" where
  "delete h city k = h[city := deleteProperty k (h ! city)]"

text \<open>
  The function mapped over the page by both handlers:
  \<^verbatim>\<open>function(city) {
  city = _.cloneDeep(city);
  INDEX_EXCLUDE.forEach(function(k) { delete city[k] });
  return city;
}\<close>
\<close>

definition cloneWithout :: "('n, 'm, 'o) store \<Rightarrow> addr \<Rightarrow> ('n, 'm, 'o) store \<times> addr" where
  "cloneWithout h city =
     (let (h, city) = cloneDeep h city
      in (fold (\<lambda>k h. delete h city k) INDEX_EXCLUDE h, city))"

text \<open>\<open>_.map(list, f)\<close> for a function that changes the store: one city after the other.\<close>

fun mapStore ::
  "('h \<Rightarrow> addr \<Rightarrow> 'h \<times> addr) \<Rightarrow> 'h \<Rightarrow> addr list \<Rightarrow> 'h \<times> addr list" where
  "mapStore f h [] = (h, [])"
| "mapStore f h (city # list) =
     (let (h, city') = f h city; (h, list') = mapStore f h list in (h, city' # list'))"

text \<open>
  \<open>list.slice(start, end)\<close>: a negative bound counts from the end, and both are clipped
  to the list.
\<close>

definition slice :: "'a list \<Rightarrow> int \<Rightarrow> int \<Rightarrow> 'a list" where
  "slice list start end' =
     (let len = int (length list);
          k = (if start < 0 then max (len + start) 0 else min start len);
          final = (if end' < 0 then max (len + end') 0 else min end' len)
      in take (nat (final - k)) (drop (nat k) list))"

text \<open>\<open>1*req.query.has_neighborhoods\<close> as a condition: a number that is neither 0 nor NaN.\<close>

definition hasNeighborhoodsFlag :: "(string \<Rightarrow> jsnum) \<Rightarrow> request \<Rightarrow> bool" where
  "hasNeighborhoodsFlag num req =
     (case query_has_neighborhoods req of
        None \<Rightarrow> False
      | Some s \<Rightarrow> (case num s of NaN \<Rightarrow> False | Fin x \<Rightarrow> x \<noteq> 0 | _ \<Rightarrow> True))"

text \<open>
  \<open>exports.index\<close>: the page of the cities (those with neighborhoods only, when asked),
  each cloned and stripped. The result is the store after the request and the response,
  whose body holds the objects the clones are when it is serialised.
\<close>

definition index ::
  "'z helpers_scheme \<Rightarrow> ('n, 'm, 'o) store \<Rightarrow> addr list \<Rightarrow> request
    \<Rightarrow> ('n, 'm, 'o) store \<times> ('n, 'm, 'o) city list response" where
  "index hp h cities req =
     (let (offset, limit) = paginator_offset hp req;
          list = cities;
          list = (if hasNeighborhoodsFlag (Number hp) req
                  then filter (\<lambda>item. neighborhoods (h ! item) \<noteq> None) list else list);
          list = slice list offset (offset + limit);
          (h, list) = mapStore cloneWithout h list
      in (h, Json 200 (map (\<lambda>city. h ! city) list)))"

text \<open>
  \<open>exports.search\<close>: the same for the cities whose slugified name matches the slugified
  \<open>q\<close>, which must not be empty.
\<close>

definition search ::
  "'z helpers_scheme \<Rightarrow> ('n, 'm, 'o) store \<Rightarrow> addr list \<Rightarrow> request
    \<Rightarrow> ('n, 'm, 'o) store \<times> ('n, 'm, 'o) city list response" where
  "search hp h cities req =
     (let (offset, limit) = paginator_offset hp req;
          q = slug hp (case query_q req of None \<Rightarrow> [] | Some s \<Rightarrow> s)
      in if q = [] then (h, ValidationError '''q' parameter must not be empty.'')
         else
           let filtered = filter (\<lambda>item.
                   if hasNeighborhoodsFlag (Number hp) req \<and> neighborhoods (h ! item) = None
                   then False
                   else fuzzy_test hp q (slug hp (name (h ! item)))) cities;
               filtered = slice filtered offset (offset + limit);
               (h, list) = mapStore cloneWithout h filtered
           in (h, Json 200 (map (\<lambda>city. h ! city) list)))"

text \<open>A store of two cities, the first with months, neighborhoods and deciles.\<close>

definition twoCities :: "(nat, nat, unit) store" where
  "twoCities =
     [\<lparr>total = 40, avgPricePerSqm = 12, stdErr = Some 1, inequalityIndex = Some 2,
       name = ''berlin'', ranked = True, months = Some 9, neighborhoods = Some 3,
       deciles = Some [8, 9, 10], other = ()\<rparr>,
      \<lparr>total = 7, avgPricePerSqm = 9, stdErr = Some 2, inequalityIndex = None,
       name = ''bern'', ranked = False, months = None, neighborhoods = None,
       deciles = None, other = ()\<rparr>]"

definition searchRequest :: "string option \<Rightarrow> string option \<Rightarrow> request" where
  "searchRequest q flag =
     \<lparr>query_q = q, query_radius = None, query_limit = None,
      query_min_living_space = None, query_max_living_space = None,
      query_no_rooms = None, query_has_neighborhoods = flag,
      query_indicator = None, params_name = None\<rparr>"

section \<open>The aggregation engine of the specification\<close>

text \<open>
  The selection of listings and the statistics over a selection are computed by
  \<open>doc.model\<close> (\<open>docs.center\<close>, \<open>docs.getStats\<close>, \<open>docs.deciles\<close>), which is not among
  the sources. The definitions of this section are written from the specification.
  Numbers are exact reals.
\<close>

subsection \<open>Listings and region queries\<close>

record listing =
  latitude :: real
  longitude :: real
  livingSpace :: real
  totalRent :: real
  rooms :: "nat option"
  neighborhood :: "string option"
  timestamp :: nat

text \<open>
  A region query; \<open>rooms'\<close> and \<open>limit'\<close> are its fields \<open>rooms\<close> and \<open>limit\<close>, \<open>None\<close>
  being \<open>null\<close>.
\<close>

record region_query =
  center :: "real \<times> real"
  radiusKm :: real
  minLivingSpace :: real
  maxLivingSpace :: real
  rooms' :: "nat set option"
  limit' :: "int option"

datatype stats_error = InvalidQuery | InsufficientData | UpstreamUnavailable

subsection \<open>Geo Filter\<close>

text \<open>
  Modelled from the spec: the great-circle distance of the Geo Filter, which
  \<open>docs.center\<close> would compute. The haversine formula on coordinates in decimal degrees;
  the specification leaves the radius of the Earth to the implementation, the mean
  radius in kilometres is taken.
\<close>

definition earthRadiusKm :: real where
  "earthRadiusKm = 6371"

definition radians :: "real \<Rightarrow> real" where
  "radians d = d * pi / 180"

definition haversine :: "real \<times> real \<Rightarrow> real \<times> real \<Rightarrow> real" where
  "haversine p q =
     (let phi1 = radians (fst p); phi2 = radians (fst q);
          dphi = radians (fst q - fst p); dlambda = radians (snd q - snd p);
          a = (sin (dphi / 2))\<^sup>2 + cos phi1 * cos phi2 * (sin (dlambda / 2))\<^sup>2
      in 2 * earthRadiusKm * arcsin (sqrt a))"

text \<open>
  Modelled from the spec: the test of one listing by the Geo Filter (part of the absent
  \<open>docs.center\<close>). The distance test and the attribute filters, conjunctively; a listing
  whose number of rooms is unknown fails an active room filter.
\<close>

definition matches :: "region_query \<Rightarrow> listing \<Rightarrow> bool" where
  "matches query l =
     (haversine (center query) (latitude l, longitude l) \<le> radiusKm query
      \<and> minLivingSpace query \<le> livingSpace l \<and> livingSpace l \<le> maxLivingSpace query
      \<and> (case rooms' query of
            None \<Rightarrow> True
          | Some rs \<Rightarrow> (case rooms l of None \<Rightarrow> False | Some r \<Rightarrow> r \<in> rs)))"

text \<open>
  Modelled from the spec: the contract \<open>select(store, query)\<close> of the Geo Filter, for the
  absent \<open>docs.center\<close>. The listings of the store that pass the test, in store order; a
  limit that is provided and positive keeps the first listings encountered.
\<close>

definition select :: "listing list \<Rightarrow> region_query \<Rightarrow> listing list" where
  "select store query =
     (let selection = filter (matches query) store
      in case limit' query of
           None \<Rightarrow> selection
         | Some n \<Rightarrow> if 0 < n then take (nat n) selection else selection)"

subsection \<open>Regression Statistics\<close>

text \<open>Modelled from the spec: the mean of a list of values, as the statistics use it.\<close>

definition mean :: "real list \<Rightarrow> real" where
  "mean vs = sum_list vs / real (length vs)"

text \<open>
  Modelled from the spec: the simple linear regression \<open>rent \<approx> slope * space + intercept\<close>
  behind \<open>compute\<close> (the absent \<open>docs.getStats\<close>). It is undefined, \<open>None\<close>, for fewer
  than two listings and when the living spaces have zero variance, that is when the sum of
  their squared deviations from their mean is 0. Otherwise the slope is the sum of the
  products of the deviations divided by that sum, and the line goes through the means.
\<close>

definition linearRegression :: "listing list \<Rightarrow> (real \<times> real) option" where
  "linearRegression selection =
     (if length selection < 2 then None
      else
        let xbar = mean (map livingSpace selection);
            ybar = mean (map totalRent selection);
            sxx = (\<Sum>l\<leftarrow>selection. (livingSpace l - xbar)\<^sup>2);
            sxy = (\<Sum>l\<leftarrow>selection. (livingSpace l - xbar) * (totalRent l - ybar))
        in if sxx = 0 then None
           else let slope = sxy / sxx in Some (slope, ybar - slope * xbar))"

text \<open>
  Modelled from the spec: the sum of the squared residuals of a selection for a line, the
  quantity an ordinary-least-squares regression minimises.
\<close>

definition squaredResiduals :: "listing list \<Rightarrow> real \<Rightarrow> real \<Rightarrow> real" where
  "squaredResiduals selection slope intercept =
     (\<Sum>l\<leftarrow>selection. (totalRent l - (slope * livingSpace l + intercept))\<^sup>2)"

text \<open>
  Modelled from the spec: the standard error of the slope, the residual standard
  deviation (on \<open>n - 2\<close> degrees of freedom) divided by the square root of the sum of the
  squared deviations of the living spaces from their mean. Two listings leave no degree
  of freedom: the value is then not a number, \<open>None\<close>.
\<close>

definition slopeStdErr :: "listing list \<Rightarrow> real \<Rightarrow> real \<Rightarrow> real option" where
  "slopeStdErr selection slope intercept =
     (if length selection \<le> 2 then None
      else
        let xbar = mean (map livingSpace selection);
            sxx = (\<Sum>l\<leftarrow>selection. (livingSpace l - xbar)\<^sup>2)
        in Some (sqrt (squaredResiduals selection slope intercept
                        / real (length selection - 2)) / sqrt sxx))"

text \<open>
  Modelled from the spec: the inequality index. The selection is partitioned by
  neighborhood (listings without one belong to no partition); the slopes of the
  partitions that have a regression are collected; with fewer than two of them the index
  is \<open>null\<close>, otherwise it is their standard deviation (of the population: the
  specification does not say which one).
\<close>

definition partitionSlopes :: "listing list \<Rightarrow> real list" where
  "partitionSlopes selection =
     List.map_filter
       (\<lambda>nb. map_option fst
                (linearRegression (filter (\<lambda>l. neighborhood l = Some nb) selection)))
       (remdups (List.map_filter neighborhood selection))"

definition standardDeviation :: "real list \<Rightarrow> real" where
  "standardDeviation vs = sqrt ((\<Sum>v\<leftarrow>vs. (v - mean vs)\<^sup>2) / real (length vs))"

definition inequalityIndexOf :: "listing list \<Rightarrow> real option" where
  "inequalityIndexOf selection =
     (let slopes = partitionSlopes selection
      in if length slopes < 2 then None else Some (standardDeviation slopes))"

text \<open>
  Modelled from the spec: the contract \<open>compute(selection)\<close> of Regression Statistics, for
  the absent \<open>docs.getStats\<close>. A selection without a regression is reported as
  \<open>InsufficientData\<close>, never as numbers.
\<close>

definition compute :: "listing list \<Rightarrow> stats_error + stats" where
  "compute selection =
     (case linearRegression selection of
        None \<Rightarrow> Inl InsufficientData
      | Some (slope, intercept) \<Rightarrow>
          Inr \<lparr>total = length selection, avgPricePerSqm = slope,
               stdErr = slopeStdErr selection slope intercept,
               inequalityIndex = inequalityIndexOf selection\<rparr>)"

subsection \<open>Decile Calculator\<close>

text \<open>
  Modelled from the spec: the price per area of one listing, for the absent
  \<open>docs.deciles\<close>. Listings have a positive living space.
\<close>

definition pricePerArea :: "listing \<Rightarrow> real" where
  "pricePerArea l = totalRent l / livingSpace l"

text \<open>
  Modelled from the spec: the boundary \<open>k\<close> of sorted values, read at the rank
  \<open>k * (n - 1) / 10\<close> counted from 0. The whole part of the rank is the quotient by 10,
  its fraction is the remainder over 10, and the boundary is interpolated linearly between
  the value at the whole part and the next one.
\<close>

definition decileAt :: "real list \<Rightarrow> nat \<Rightarrow> real" where
  "decileAt vs k =
     (let position = k * (length vs - 1);
          lower = position div 10;
          fraction = real (position mod 10) / 10
      in vs ! lower + fraction * (vs ! (lower + 1) - vs ! lower))"

text \<open>
  Modelled from the spec: the contract \<open>deciles(selection)\<close> of the Decile Calculator, for
  the absent \<open>docs.deciles\<close>. The prices per area are sorted ascending and the boundaries
  1 to 9 are read; fewer than two listings give no deciles.
\<close>

definition decilesOf :: "listing list \<Rightarrow> real list" where
  "decilesOf selection =
     (let vs = sort (map pricePerArea selection)
      in if length vs < 2 then [] else map (decileAt vs) [1..<10])"

text \<open>Listings at one point, given by living space and rent, for concrete selections.\<close>

definition flat :: "real \<Rightarrow> real \<Rightarrow> listing" where
  "flat space rent =
     \<lparr>latitude = 52, longitude = 13, livingSpace = space, totalRent = rent,
      rooms = None, neighborhood = None, timestamp = 0\<rparr>"

definition aroundFlats :: "int option \<Rightarrow> region_query" where
  "aroundFlats n =
     \<lparr>center = (52, 13), radiusKm = 20, minLivingSpace = 0, maxLivingSpace = 200,
      rooms' = None, limit' = n\<rparr>"

section \<open>Properties of the ranking\<close>




text \<open>
  C10. A request whose indicator is absent, or is none of \<open>avgPricePerSqm\<close>,
  \<open>total\<close> and \<open>inequalityIndex\<close>, gets the ranking by \<open>avgPricePerSqm\<close>: the
  same successful response, never an error.
\<close>

theorem ranking_default_indicator:
  "query_indicator req = None
     \<or> (\<exists>s. query_indicator req = Some s
          \<and> s \<noteq> ''avgPricePerSqm'' \<and> s \<noteq> ''total'' \<and> s \<noteq> ''inequalityIndex'')
   \<Longrightarrow> ranking cities req
        = ranking cities (req\<lparr>query_indicator := Some ''avgPricePerSqm''\<rparr>)
     \<and> (\<exists>rs. ranking cities req = Json 200 rs)"
  by (auto simp: ranking_def Let_def chooseIndicator_def indicators_def)

theorem ranking_default_indicator_witness:
  "ranking [region ''R2'' 15 True, region ''R1'' 20 True] (indicatorRequest (Some ''price''))
     = ranking [region ''R2'' 15 True, region ''R1'' 20 True]
         (indicatorRequest (Some ''avgPricePerSqm''))
   \<and> ranking [region ''R2'' 15 True, region ''R1'' 20 True] (indicatorRequest None)
     = Json 200 [(''R1'', Num 20), (''R2'', Num 15)]"
  using ranking_default_indicator
    [of "indicatorRequest (Some ''price'')" "[region ''R2'' 15 True, region ''R1'' 20 True]"]
    ranking_default_indicator
    [of "indicatorRequest None" "[region ''R2'' 15 True, region ''R1'' 20 True]"]
  by (simp add: indicatorRequest_def ranking_def Let_def chooseIndicator_def
      indicators_def region_def)

section \<open>Properties of the statistics about a location\<close>

lemma js_le_Math_min: "a \<noteq> NaN \<Longrightarrow> js_le (Math_min a (Fin 20)) (Fin 20)"
  by (cases a) auto

lemma validRadius_le: "js_le (validRadius num req) (Fin 20)"
  by (auto simp: validRadius_def Let_def isNaN_def intro: js_le_Math_min)

lemma validRadius_above:
  "query_radius req = Some s \<Longrightarrow> s \<noteq> [] \<Longrightarrow> js_le (Fin 20) (num s)
    \<Longrightarrow> validRadius num req = Fin 20"
  by (cases "num s") (auto simp: validRadius_def Let_def isNaN_def orDefault_def)

lemma validRadius_default:
  "\<not> truthy (query_radius req) \<or> (\<exists>s. query_radius req = Some s \<and> num s = NaN)
    \<Longrightarrow> validRadius num req = Fin 20"
  by (auto simp: validRadius_def Let_def isNaN_def orDefault_def truthy_def split: option.splits)

lemma validRadius_kept:
  "query_radius req = Some s \<Longrightarrow> s \<noteq> [] \<Longrightarrow> num s = Fin x \<Longrightarrow> x \<le> 20
    \<Longrightarrow> validRadius num req = Fin x"
  by (auto simp: validRadius_def Let_def isNaN_def orDefault_def)

lemma sendCenter_calls:
  "\<exists>rest. fst (sendCenter sv radius mn mx noRooms limit place)
     = CallCenter (placeLatitude place) (placeLongitude place) (placeRadius place) mn mx noRooms limit # rest
     \<and> (\<forall>c \<in> set rest. \<not> isCallCenter c)"
  by (auto simp: sendCenter_def Let_def split: sum.splits)

lemma sendCenter_not_400:
  "snd (sendCenter sv radius mn mx noRooms limit place) \<noteq> HandleError 400 m"
  "snd (sendCenter sv radius mn mx noRooms limit place) \<noteq> ValidationError m"
  by (auto simp: sendCenter_def Let_def split: sum.splits)

lemma sendCenter_success:
  "snd (sendCenter sv radius mn mx noRooms limit place) = Json 200 p \<Longrightarrow>
    \<exists>rows stats ds.
       docs_center sv (placeLatitude place) (placeLongitude place) (placeRadius place)
         mn mx noRooms limit = Inr rows
     \<and> docs_getStats sv rows radius True = Inr stats
     \<and> docs_deciles sv rows = Inr ds
     \<and> fst (sendCenter sv radius mn mx noRooms limit place)
         = [CallCenter (placeLatitude place) (placeLongitude place) (placeRadius place)
              mn mx noRooms limit,
            CallGetStats rows radius True, CallDeciles rows]
     \<and> p = place\<lparr>placeStats := Some stats, placeDeciles := ds\<rparr>"
  by (auto simp: sendCenter_def Let_def split: sum.splits)

lemma geocode_cases:
  assumes q: "truthy (query_q req)"
  shows "geocode sv req = ([], HandleError 404 ''Not found'')
    \<or> (\<exists>place. placeRadius place = validRadius (Number sv) req
          \<and> placeStats place = None \<and> placeDeciles place = []
          \<and> geocode sv req
             = sendCenter sv (validRadius (Number sv) req)
                 (validMinLivingSpace (Number sv) req) (validMaxLivingSpace (Number sv) req)
                 (validNoRooms (Number sv) req) (query_limit req) place)"
proof (cases "length (numbersOf (Number sv) (the (query_q req))) = 2")
  case True
  let ?place = "\<lparr>placeRadius = validRadius (Number sv) req,
      placeLatitude = numbersOf (Number sv) (the (query_q req)) ! 0,
      placeLongitude = numbersOf (Number sv) (the (query_q req)) ! 1,
      placeName = ''unkown'', placeType = ''unkown'', placeDeciles = [],
      placeStats = None\<rparr>"
  from q True show ?thesis
    by (intro disjI2 exI[of _ ?place]) (simp add: geocode_def Let_def)
next
  case False
  note no_coordinates = this
  show ?thesis
  proof (cases "nominatim sv (the (query_q req))")
    case None
    with q no_coordinates show ?thesis
      by (simp add: geocode_def Let_def)
  next
    case (Some body)
    show ?thesis
    proof (cases body)
      case Nil
      with q no_coordinates Some show ?thesis
        by (simp add: geocode_def Let_def)
    next
      case (Cons b bs)
      let ?place = "\<lparr>placeRadius = validRadius (Number sv) req,
          placeLatitude = Number sv (osm_lat b), placeLongitude = Number sv (osm_lon b),
          placeName = osm_display_name b, placeType = osm_type b, placeDeciles = [],
          placeStats = None\<rparr>"
      from q no_coordinates Some Cons show ?thesis
        by (intro disjI2 exI[of _ ?place]) (simp add: geocode_def Let_def)
    qed
  qed
qed

lemma geocode_missing_q:
  "\<not> truthy (query_q req) \<Longrightarrow> geocode sv req = ([], HandleError 400 ''Missing 'q' parameter.'')"
  by (simp add: geocode_def)


lemma validMinLivingSpace_default:
  "\<not> truthy (query_min_living_space req) \<Longrightarrow> validMinLivingSpace num req = N (Fin 0)"
  by (auto simp: validMinLivingSpace_def Let_def isNaN_def orDefault_def truthy_def
      split: option.splits)

lemma validMaxLivingSpace_default:
  "\<not> truthy (query_max_living_space req) \<Longrightarrow> validMaxLivingSpace num req = N (Fin 200)"
  by (auto simp: validMaxLivingSpace_def Let_def isNaN_def orDefault_def truthy_def
      split: option.splits)

lemma geocode_not_rejected:
  assumes "truthy (query_q req)"
  shows "snd (geocode sv req) \<noteq> HandleError 400 m"
    and "snd (geocode sv req) \<noteq> ValidationError m"
  using geocode_cases [OF assms, of sv]
  by (auto simp: sendCenter_not_400)

lemma geocode_center_arguments:
  assumes "truthy (query_q req)" and "c \<in> set (fst (geocode sv req))" and "isCallCenter c"
  shows "\<exists>lat lng. c = CallCenter lat lng (validRadius (Number sv) req)
      (validMinLivingSpace (Number sv) req) (validMaxLivingSpace (Number sv) req)
      (validNoRooms (Number sv) req) (query_limit req)"
proof -
  from geocode_cases [OF assms(1), of sv] show ?thesis
  proof
    assume "geocode sv req = ([], HandleError 404 ''Not found'')"
    with assms(2) show ?thesis by simp
  next
    assume "\<exists>place. placeRadius place = validRadius (Number sv) req
          \<and> placeStats place = None \<and> placeDeciles place = []
          \<and> geocode sv req
             = sendCenter sv (validRadius (Number sv) req)
                 (validMinLivingSpace (Number sv) req) (validMaxLivingSpace (Number sv) req)
                 (validNoRooms (Number sv) req) (query_limit req) place"
    then obtain place where r: "placeRadius place = validRadius (Number sv) req"
      and g: "geocode sv req = sendCenter sv (validRadius (Number sv) req)
                 (validMinLivingSpace (Number sv) req) (validMaxLivingSpace (Number sv) req)
                 (validNoRooms (Number sv) req) (query_limit req) place"
      by blast
    from sendCenter_calls [of sv "validRadius (Number sv) req"
        "validMinLivingSpace (Number sv) req" "validMaxLivingSpace (Number sv) req"
        "validNoRooms (Number sv) req" "query_limit req" place]
    obtain rest where "fst (geocode sv req)
        = CallCenter (placeLatitude place) (placeLongitude place) (placeRadius place)
            (validMinLivingSpace (Number sv) req) (validMaxLivingSpace (Number sv) req)
            (validNoRooms (Number sv) req) (query_limit req) # rest"
      and "\<forall>c \<in> set rest. \<not> isCallCenter c"
      unfolding g by blast
    with assms(2,3) r show ?thesis
      by auto
  qed
qed

text \<open>
  C6. The radius passed to the selection is at most 20: a requested radius of 20 or more
  becomes 20, and an absent, empty or not-a-number radius becomes 20; an absent minimum
  living space is 0 and an absent maximum is 200. None of this rejects the request: with
  a \<open>q\<close>, the response is never a 400 or a validation error, and every call of
  \<open>docs.center\<close> carries the validated values.
\<close>

theorem geocode_radius_clamped_defaults:
  "js_le (validRadius (Number sv) req) (Fin 20)
   \<and> (\<forall>s. query_radius req = Some s \<and> s \<noteq> [] \<and> js_le (Fin 20) (Number sv s)
          \<longrightarrow> validRadius (Number sv) req = Fin 20)
   \<and> (\<not> truthy (query_radius req) \<or> (\<exists>s. query_radius req = Some s \<and> Number sv s = NaN)
          \<longrightarrow> validRadius (Number sv) req = Fin 20)
   \<and> (\<not> truthy (query_min_living_space req)
          \<longrightarrow> validMinLivingSpace (Number sv) req = N (Fin 0))
   \<and> (\<not> truthy (query_max_living_space req)
          \<longrightarrow> validMaxLivingSpace (Number sv) req = N (Fin 200))
   \<and> (truthy (query_q req) \<longrightarrow>
        (\<forall>m. snd (geocode sv req) \<noteq> HandleError 400 m
            \<and> snd (geocode sv req) \<noteq> ValidationError m)
      \<and> (\<forall>c \<in> set (fst (geocode sv req)). isCallCenter c \<longrightarrow>
            (\<exists>lat lng. c = CallCenter lat lng (validRadius (Number sv) req)
               (validMinLivingSpace (Number sv) req) (validMaxLivingSpace (Number sv) req)
               (validNoRooms (Number sv) req) (query_limit req))))"
proof (intro conjI allI impI ballI)
  show "js_le (validRadius (Number sv) req) (Fin 20)"
    by (rule validRadius_le)
next
  fix s assume "query_radius req = Some s \<and> s \<noteq> [] \<and> js_le (Fin 20) (Number sv s)"
  then show "validRadius (Number sv) req = Fin 20"
    by (simp add: validRadius_above)
next
  assume "\<not> truthy (query_radius req) \<or> (\<exists>s. query_radius req = Some s \<and> Number sv s = NaN)"
  then show "validRadius (Number sv) req = Fin 20"
    by (rule validRadius_default)
next
  assume "\<not> truthy (query_min_living_space req)"
  then show "validMinLivingSpace (Number sv) req = N (Fin 0)"
    by (rule validMinLivingSpace_default)
next
  assume "\<not> truthy (query_max_living_space req)"
  then show "validMaxLivingSpace (Number sv) req = N (Fin 200)"
    by (rule validMaxLivingSpace_default)
next
  fix m assume "truthy (query_q req)"
  then show "snd (geocode sv req) \<noteq> HandleError 400 m"
    by (rule geocode_not_rejected)
next
  fix m assume "truthy (query_q req)"
  then show "snd (geocode sv req) \<noteq> ValidationError m"
    by (rule geocode_not_rejected)
next
  fix c assume "truthy (query_q req)" "c \<in> set (fst (geocode sv req))" "isCallCenter c"
  then show "\<exists>lat lng. c = CallCenter lat lng (validRadius (Number sv) req)
               (validMinLivingSpace (Number sv) req) (validMaxLivingSpace (Number sv) req)
               (validNoRooms (Number sv) req) (query_limit req)"
    by (rule geocode_center_arguments)
qed

text \<open>The definitions to unfold when the handler runs on a concrete request.\<close>

lemmas run_geocode = geocode_def geocodeRequest_def fixedServices_def truthy_def
  validRadius_def validMinLivingSpace_def validMaxLivingSpace_def validNoRooms_def
  numbersOf_def integerNumber_def trim_def isSpace_def digitValue_def orDefault_def isNaN_def
  sendCenter_def Let_def

theorem geocode_radius_clamped_defaults_witness:
  "geocode (fixedServices [1, 2 :: nat]) (geocodeRequest ''52,13'' (Some ''25'') None)
     = ([CallCenter (Fin 52) (Fin 13) (Fin 20) (N (Fin 0)) (N (Fin 200)) None None,
         CallGetStats [1, 2] (Fin 20) True, CallDeciles [1, 2]],
        Json 200 \<lparr>placeRadius = Fin 20, placeLatitude = Fin 52, placeLongitude = Fin 13,
          placeName = ''unkown'', placeType = ''unkown'', placeDeciles = [],
          placeStats = Some [1, 2]\<rparr>)
   \<and> validRadius integerNumber (geocodeRequest ''52,13'' (Some ''abc'') None) = Fin 20
   \<and> validRadius integerNumber (geocodeRequest ''52,13'' None None) = Fin 20
   \<and> validRadius integerNumber (geocodeRequest ''52,13'' (Some ''7'') None) = Fin 7"
  using geocode_radius_clamped_defaults
    [of "fixedServices [1, 2 :: nat]" "geocodeRequest ''52,13'' (Some ''25'') None"]
  by (simp add: run_geocode)

lemma sendCenter_once:
  "length (filter isCallCenter (fst (sendCenter sv radius mn mx noRooms limit place))) = 1"
  by (auto simp: sendCenter_def Let_def split: sum.splits)

lemma geocode_at_most_once:
  "length (filter isCallCenter (fst (geocode sv req))) \<le> 1"
proof (cases "truthy (query_q req)")
  case True
  from geocode_cases [OF True, of sv] show ?thesis
    by (auto simp: sendCenter_once)
next
  case False
  then show ?thesis
    by (simp add: geocode_def)
qed

lemma geocode_success:
  assumes "snd (geocode sv req) = Json 200 p"
  shows "\<exists>lat lng r mn mx noRooms rows stats ds.
      fst (geocode sv req)
        = [CallCenter lat lng r mn mx noRooms (query_limit req),
           CallGetStats rows r True, CallDeciles rows]
    \<and> docs_center sv lat lng r mn mx noRooms (query_limit req) = Inr rows
    \<and> docs_getStats sv rows r True = Inr stats
    \<and> docs_deciles sv rows = Inr ds
    \<and> placeStats p = Some stats \<and> placeDeciles p = ds"
proof -
  have q: "truthy (query_q req)"
    using assms by (auto simp: geocode_def split: if_splits)
  from geocode_cases [OF q, of sv] assms
  obtain place where r: "placeRadius place = validRadius (Number sv) req"
    and g: "geocode sv req = sendCenter sv (validRadius (Number sv) req)
               (validMinLivingSpace (Number sv) req) (validMaxLivingSpace (Number sv) req)
               (validNoRooms (Number sv) req) (query_limit req) place"
    by auto
  from assms have "snd (sendCenter sv (validRadius (Number sv) req)
               (validMinLivingSpace (Number sv) req) (validMaxLivingSpace (Number sv) req)
               (validNoRooms (Number sv) req) (query_limit req) place) = Json 200 p"
    by (simp add: g)
  from sendCenter_success [OF this] r show ?thesis
    unfolding g by fastforce
qed

text \<open>
  C5. Serving a place calls \<open>docs.center\<close> exactly once, and a whole request calls it at
  most once; whenever a result is sent, the calls are that one selection followed by
  \<open>docs.getStats\<close> and \<open>docs.deciles\<close> on the very rows it returned, and the
  statistics and the deciles of the result are the values of these two calls.
\<close>

theorem geocode_filters_once_shares_rows:
  "length (filter isCallCenter (fst (sendCenter sv radius mn mx noRooms limit place))) = 1
   \<and> (\<forall>p. snd (sendCenter sv radius mn mx noRooms limit place) = Json 200 p \<longrightarrow>
        (\<exists>rows stats ds.
           docs_center sv (placeLatitude place) (placeLongitude place) (placeRadius place)
             mn mx noRooms limit = Inr rows
         \<and> docs_getStats sv rows radius True = Inr stats
         \<and> docs_deciles sv rows = Inr ds
         \<and> fst (sendCenter sv radius mn mx noRooms limit place)
             = [CallCenter (placeLatitude place) (placeLongitude place) (placeRadius place)
                  mn mx noRooms limit,
                CallGetStats rows radius True, CallDeciles rows]
         \<and> p = place\<lparr>placeStats := Some stats, placeDeciles := ds\<rparr>))
   \<and> length (filter isCallCenter (fst (geocode sv req))) \<le> 1
   \<and> (\<forall>p. snd (geocode sv req) = Json 200 p \<longrightarrow>
        (\<exists>lat lng r mn mx noRooms rows stats ds.
           fst (geocode sv req)
             = [CallCenter lat lng r mn mx noRooms (query_limit req),
                CallGetStats rows r True, CallDeciles rows]
         \<and> docs_center sv lat lng r mn mx noRooms (query_limit req) = Inr rows
         \<and> docs_getStats sv rows r True = Inr stats
         \<and> docs_deciles sv rows = Inr ds
         \<and> placeStats p = Some stats \<and> placeDeciles p = ds))"
  using sendCenter_once [of sv radius mn mx noRooms limit place]
    sendCenter_success [of sv radius mn mx noRooms limit place]
    geocode_at_most_once [of sv req] geocode_success [of sv req]
  by blast

theorem geocode_filters_once_shares_rows_witness:
  "geocode (fixedServices [3, 4 :: nat]) (geocodeRequest ''48,2'' (Some ''5'') None)
     = ([CallCenter (Fin 48) (Fin 2) (Fin 5) (N (Fin 0)) (N (Fin 200)) None None,
         CallGetStats [3, 4] (Fin 5) True, CallDeciles [3, 4]],
        Json 200 \<lparr>placeRadius = Fin 5, placeLatitude = Fin 48, placeLongitude = Fin 2,
          placeName = ''unkown'', placeType = ''unkown'', placeDeciles = [],
          placeStats = Some [3, 4]\<rparr>)"
  using geocode_filters_once_shares_rows
    [of "fixedServices [3, 4 :: nat]" "Fin 5" "N (Fin 0)" "N (Fin 200)" None None
        "\<lparr>placeRadius = Fin 5, placeLatitude = Fin 48, placeLongitude = Fin 2,
          placeName = ''unkown'', placeType = ''unkown'', placeDeciles = [],
          placeStats = None\<rparr>"
        "geocodeRequest ''48,2'' (Some ''5'') None"]
  by (simp add: run_geocode)

lemma validNoRooms_no_NaN: "validNoRooms num req = Some noRooms \<Longrightarrow> NaN \<notin> set noRooms"
  by (auto simp: validNoRooms_def numbersOf_def split: if_splits)

text \<open>
  C8, as stated, fails: the requests with \<open>no_rooms=a,2\<close> and \<open>no_rooms=abc\<close>, whose
  parts \<open>a\<close> and \<open>abc\<close> are not numbers, are served with status 200, the first with the
  room filter \<open>[2]\<close> and the second with the empty room filter.
\<close>

theorem geocode_unparsable_rooms_counterexample:
  "integerNumber ''a'' = NaN \<and> integerNumber ''abc'' = NaN
   \<and> geocode (fixedServices [3, 4 :: nat]) (geocodeRequest ''48,2'' None (Some ''a,2''))
     = ([CallCenter (Fin 48) (Fin 2) (Fin 20) (N (Fin 0)) (N (Fin 200)) (Some [Fin 2]) None,
         CallGetStats [3, 4] (Fin 20) True, CallDeciles [3, 4]],
        Json 200 \<lparr>placeRadius = Fin 20, placeLatitude = Fin 48, placeLongitude = Fin 2,
          placeName = ''unkown'', placeType = ''unkown'', placeDeciles = [],
          placeStats = Some [3, 4]\<rparr>)
   \<and> geocode (fixedServices [3, 4 :: nat]) (geocodeRequest ''48,2'' None (Some ''abc''))
     = ([CallCenter (Fin 48) (Fin 2) (Fin 20) (N (Fin 0)) (N (Fin 200)) (Some []) None,
         CallGetStats [3, 4] (Fin 20) True, CallDeciles [3, 4]],
        Json 200 \<lparr>placeRadius = Fin 20, placeLatitude = Fin 48, placeLongitude = Fin 2,
          placeName = ''unkown'', placeType = ''unkown'', placeDeciles = [],
          placeStats = Some [3, 4]\<rparr>)"
  by (simp add: run_geocode)

text \<open>
  C8, amended. The parts of \<open>no_rooms\<close> that are not numbers are dropped: the room filter
  is the list of the numbers among the trimmed comma-separated parts, in order (possibly
  empty), or \<open>null\<close> when \<open>no_rooms\<close> is absent or empty. The request is not rejected for
  it: with a \<open>q\<close>, the response is never a 400 or a validation error, and every call of
  \<open>docs.center\<close> carries this room filter.
\<close>

theorem geocode_rooms_dropped_not_rejected:
  "validNoRooms (Number sv) req
     = (if truthy (query_no_rooms req)
        then Some (filter (\<lambda>x. x \<noteq> NaN)
               (map (\<lambda>part. Number sv (trim part)) (split_comma (the (query_no_rooms req)))))
        else None)
   \<and> (\<forall>noRooms. validNoRooms (Number sv) req = Some noRooms \<longrightarrow> NaN \<notin> set noRooms)
   \<and> (truthy (query_q req) \<longrightarrow>
        (\<forall>m. snd (geocode sv req) \<noteq> HandleError 400 m
            \<and> snd (geocode sv req) \<noteq> ValidationError m)
      \<and> (\<forall>c \<in> set (fst (geocode sv req)). isCallCenter c \<longrightarrow>
            (\<exists>lat lng r mn mx.
               c = CallCenter lat lng r mn mx (validNoRooms (Number sv) req) (query_limit req))))"
proof (intro conjI allI impI ballI)
  show "validNoRooms (Number sv) req
     = (if truthy (query_no_rooms req)
        then Some (filter (\<lambda>x. x \<noteq> NaN)
               (map (\<lambda>part. Number sv (trim part)) (split_comma (the (query_no_rooms req)))))
        else None)"
    by (simp add: validNoRooms_def numbersOf_def comp_def)
next
  fix noRooms assume "validNoRooms (Number sv) req = Some noRooms"
  then show "NaN \<notin> set noRooms"
    by (rule validNoRooms_no_NaN)
next
  fix m assume "truthy (query_q req)"
  then show "snd (geocode sv req) \<noteq> HandleError 400 m"
    by (rule geocode_not_rejected)
next
  fix m assume "truthy (query_q req)"
  then show "snd (geocode sv req) \<noteq> ValidationError m"
    by (rule geocode_not_rejected)
next
  fix c assume "truthy (query_q req)" "c \<in> set (fst (geocode sv req))" "isCallCenter c"
  from geocode_center_arguments [OF this]
  show "\<exists>lat lng r mn mx.
      c = CallCenter lat lng r mn mx (validNoRooms (Number sv) req) (query_limit req)"
    by blast
qed

theorem geocode_rooms_dropped_not_rejected_witness:
  "validNoRooms integerNumber (geocodeRequest ''48,2'' None (Some ''1, x ,3'')) = Some [Fin 1, Fin 3]
   \<and> snd (geocode (fixedServices [3, 4 :: nat]) (geocodeRequest ''48,2'' None (Some ''1, x ,3'')))
     = Json 200 \<lparr>placeRadius = Fin 20, placeLatitude = Fin 48, placeLongitude = Fin 2,
          placeName = ''unkown'', placeType = ''unkown'', placeDeciles = [],
          placeStats = Some [3, 4]\<rparr>"
  using geocode_rooms_dropped_not_rejected
    [of "fixedServices [3, 4 :: nat]" "geocodeRequest ''48,2'' None (Some ''1, x ,3'')"]
  by (simp add: run_geocode)

section \<open>Properties of the list of cities and the search\<close>

lemma cloneWithout_eq:
  "cloneWithout h a = (h @ [fold deleteProperty INDEX_EXCLUDE (h ! a)], length h)"
  by (simp add: cloneWithout_def cloneDeep_def delete_def INDEX_EXCLUDE_def)

lemma mapStore_cloneWithout_Cons:
  "mapStore cloneWithout h (a # list)
     = (fst (mapStore cloneWithout (h @ [fold deleteProperty INDEX_EXCLUDE (h ! a)]) list),
        length h # snd (mapStore cloneWithout (h @ [fold deleteProperty INDEX_EXCLUDE (h ! a)]) list))"
proof -
  have "cloneWithout h a = (h @ [fold deleteProperty INDEX_EXCLUDE (h ! a)], length h)"
    by (rule cloneWithout_eq)
  then show ?thesis
    by (simp add: case_prod_unfold Let_def)
qed

lemma mapStore_extends: "\<exists>new. fst (mapStore cloneWithout h list) = h @ new"
proof (induction list arbitrary: h)
  case Nil
  show ?case by simp
next
  case (Cons a list)
  from Cons.IH [of "h @ [fold deleteProperty INDEX_EXCLUDE (h ! a)]"]
  obtain new where "fst (mapStore cloneWithout (h @ [fold deleteProperty INDEX_EXCLUDE (h ! a)]) list)
      = (h @ [fold deleteProperty INDEX_EXCLUDE (h ! a)]) @ new"
    by blast
  then show ?case
    by (simp add: mapStore_cloneWithout_Cons del: mapStore.simps)
qed

lemma mapStore_addresses:
  "snd (mapStore cloneWithout h list) = [length h ..< length h + length list]"
proof (induction list arbitrary: h)
  case Nil
  show ?case by simp
next
  case (Cons a list)
  have "[length h ..< length h + length (a # list)]
      = length h # [Suc (length h) ..< Suc (length h) + length list]"
    by (simp add: upt_conv_Cons del: upt_Suc)
  with Cons.IH [of "h @ [fold deleteProperty INDEX_EXCLUDE (h ! a)]"]
  show ?case
    by (simp add: mapStore_cloneWithout_Cons del: upt_Suc mapStore.simps)
qed

lemma mapStore_clones:
  "\<forall>a \<in> set list. a < length h \<Longrightarrow>
    fst (mapStore cloneWithout h list)
      = h @ map (\<lambda>a. fold deleteProperty INDEX_EXCLUDE (h ! a)) list"
proof (induction list arbitrary: h)
  case Nil
  show ?case by simp
next
  case (Cons a list)
  let ?h1 = "h @ [fold deleteProperty INDEX_EXCLUDE (h ! a)]"
  from Cons.prems have "\<forall>b \<in> set list. b < length ?h1"
    by auto
  from Cons.IH [OF this] Cons.prems show ?case
    by (simp add: mapStore_cloneWithout_Cons nth_append del: mapStore.simps cong: map_cong)
qed

lemma nth_new_objects:
  "map (\<lambda>c. (h @ new) ! c) [length h ..< length h + length new] = new"
  by (rule nth_equalityI) (simp_all add: nth_append)


lemma served_objects:
  assumes "\<forall>a \<in> set list. a < length h"
  shows "(case mapStore cloneWithout h list of
           (h', list') \<Rightarrow> map (\<lambda>city. h' ! city) list')
         = map (\<lambda>a. fold deleteProperty INDEX_EXCLUDE (h ! a)) list"
proof -
  obtain h' list' where m: "mapStore cloneWithout h list = (h', list')"
    by (cases "mapStore cloneWithout h list")
  from mapStore_clones [OF assms] m
  have h': "h' = h @ map (\<lambda>a. fold deleteProperty INDEX_EXCLUDE (h ! a)) list"
    by simp
  from mapStore_addresses [of h list] m
  have list': "list' = [length h ..< length h + length list]"
    by simp
  have "map (\<lambda>city. h' ! city) list' = map (\<lambda>a. fold deleteProperty INDEX_EXCLUDE (h ! a)) list"
    unfolding h' list'
    using nth_new_objects [of h "map (\<lambda>a. fold deleteProperty INDEX_EXCLUDE (h ! a)) list"]
    by simp
  with m show ?thesis by simp
qed

lemma set_slice: "set (slice list start end') \<subseteq> set list"
  unfolding slice_def Let_def
  by (meson set_drop_subset set_take_subset subset_trans)

lemma set_slice_filter: "set (slice (filter P list) start end') \<subseteq> set list"
  by (rule subset_trans [OF set_slice]) simp

lemma index_extends: "\<exists>new. fst (index hp h cities req) = h @ new"
  by (simp add: index_def Let_def case_prod_unfold mapStore_extends)

lemma search_extends: "\<exists>new. fst (search hp h cities req) = h @ new"
  by (simp add: search_def Let_def case_prod_unfold mapStore_extends)


lemma fold_deleteProperty:
  "fold deleteProperty INDEX_EXCLUDE c = c\<lparr>months := None, neighborhoods := None, deciles := None\<rparr>"
  by (simp add: INDEX_EXCLUDE_def)

lemma index_response:
  assumes wf: "\<forall>a \<in> set cities. a < length h"
  shows "\<exists>page. set page \<subseteq> set cities
    \<and> snd (index hp h cities req)
        = Json 200 (map (\<lambda>a. (h ! a)\<lparr>months := None, neighborhoods := None, deciles := None\<rparr>) page)"
proof -
  obtain offset limit where p: "paginator_offset hp req = (offset, limit)"
    by (cases "paginator_offset hp req")
  let ?list = "if hasNeighborhoodsFlag (Number hp) req
               then filter (\<lambda>item. neighborhoods (h ! item) \<noteq> None) cities else cities"
  let ?page = "slice ?list offset (offset + limit)"
  have sub: "set ?page \<subseteq> set cities"
    by (cases "hasNeighborhoodsFlag (Number hp) req") (simp_all add: set_slice set_slice_filter)
  with wf have "\<forall>a \<in> set ?page. a < length h"
    by blast
  from served_objects [OF this]
  have "snd (index hp h cities req)
      = Json 200 (map (\<lambda>a. fold deleteProperty INDEX_EXCLUDE (h ! a)) ?page)"
    by (simp add: index_def Let_def p case_prod_unfold)
  with sub show ?thesis
    unfolding fold_deleteProperty by blast
qed

lemma search_response:
  assumes wf: "\<forall>a \<in> set cities. a < length h"
  shows "snd (search hp h cities req) = ValidationError '''q' parameter must not be empty.''
    \<or> (\<exists>page. set page \<subseteq> set cities
    \<and> snd (search hp h cities req)
        = Json 200 (map (\<lambda>a. (h ! a)\<lparr>months := None, neighborhoods := None, deciles := None\<rparr>) page))"
proof (cases "slug hp (case query_q req of None \<Rightarrow> [] | Some s \<Rightarrow> s) = []")
  case True
  then show ?thesis
    by (simp add: search_def Let_def case_prod_unfold)
next
  case False
  obtain offset limit where p: "paginator_offset hp req = (offset, limit)"
    by (cases "paginator_offset hp req")
  let ?q = "slug hp (case query_q req of None \<Rightarrow> [] | Some s \<Rightarrow> s)"
  let ?filtered = "filter (\<lambda>item.
       if hasNeighborhoodsFlag (Number hp) req \<and> neighborhoods (h ! item) = None
       then False
       else fuzzy_test hp ?q (slug hp (name (h ! item)))) cities"
  let ?page = "slice ?filtered offset (offset + limit)"
  have sub: "set ?page \<subseteq> set cities"
    by (rule set_slice_filter)
  with wf have "\<forall>a \<in> set ?page. a < length h"
    by blast
  from served_objects [OF this] False
  have "snd (search hp h cities req)
      = Json 200 (map (\<lambda>a. fold deleteProperty INDEX_EXCLUDE (h ! a)) ?page)"
    by (simp add: search_def Let_def p case_prod_unfold)
  with sub show ?thesis
    unfolding fold_deleteProperty by blast
qed

text \<open>
  C9. Both handlers leave every stored city as it was: the store after the request is the
  store before it followed by the new objects (the clones), so each old address holds an
  object equal in all its fields. For a collection whose addresses are in the store, what
  is sent is a list of copies of stored cities without \<open>months\<close>, \<open>neighborhoods\<close> and
  \<open>deciles\<close> (or, for the search, the validation error).
\<close>

theorem index_search_keep_stored_cities:
  "(\<exists>new. fst (index hp h cities req) = h @ new)
   \<and> (\<exists>new. fst (search hp h cities req) = h @ new)
   \<and> take (length h) (fst (index hp h cities req)) = h
   \<and> take (length h) (fst (search hp h cities req)) = h
   \<and> ((\<forall>a \<in> set cities. a < length h) \<longrightarrow>
        (\<exists>page. set page \<subseteq> set cities
          \<and> snd (index hp h cities req)
              = Json 200 (map (\<lambda>a. (h ! a)\<lparr>months := None, neighborhoods := None,
                                          deciles := None\<rparr>) page))
      \<and> (snd (search hp h cities req) = ValidationError '''q' parameter must not be empty.''
          \<or> (\<exists>page. set page \<subseteq> set cities
          \<and> snd (search hp h cities req)
              = Json 200 (map (\<lambda>a. (h ! a)\<lparr>months := None, neighborhoods := None,
                                          deciles := None\<rparr>) page))))"
proof -
  from index_extends [of hp h cities req]
  obtain new1 where i: "fst (index hp h cities req) = h @ new1"
    by blast
  from search_extends [of hp h cities req]
  obtain new2 where s: "fst (search hp h cities req) = h @ new2"
    by blast
  from i s index_response [of cities h hp req] search_response [of cities h hp req]
  show ?thesis
    by simp
qed

theorem index_search_keep_stored_cities_witness:
  "index (fixedServices ()) twoCities [0, 1] (searchRequest None None)
     = (twoCities @ map (\<lambda>c. c\<lparr>months := None, neighborhoods := None, deciles := None\<rparr>) twoCities,
        Json 200 (map (\<lambda>c. c\<lparr>months := None, neighborhoods := None, deciles := None\<rparr>) twoCities))
   \<and> search (fixedServices ()) twoCities [0, 1] (searchRequest (Some ''berl'') None)
     = (twoCities @ [(twoCities ! 0)\<lparr>months := None, neighborhoods := None, deciles := None\<rparr>],
        Json 200 [(twoCities ! 0)\<lparr>months := None, neighborhoods := None, deciles := None\<rparr>])
   \<and> months (twoCities ! 0) = Some 9"
  using index_search_keep_stored_cities
    [of "fixedServices ()" twoCities "[0, 1]" "searchRequest None None"]
  by (simp add: index_def search_def fixedServices_def searchRequest_def twoCities_def
      hasNeighborhoodsFlag_def slice_def cloneWithout_def cloneDeep_def delete_def
      INDEX_EXCLUDE_def Let_def)

section \<open>Properties of the regression statistics\<close>

lemma sum_squared_deviations:
  "(\<Sum>l\<leftarrow>sel. (f l - c)\<^sup>2)
     = (\<Sum>l\<leftarrow>sel. (f l)\<^sup>2) - 2 * c * (\<Sum>l\<leftarrow>sel. f l) + real (length sel) * c\<^sup>2"
  for f :: "'a \<Rightarrow> real"
  by (induction sel) (simp_all add: algebra_simps power2_eq_square)

lemma sum_deviation_products:
  "(\<Sum>l\<leftarrow>sel. (f l - c) * (g l - d))
     = (\<Sum>l\<leftarrow>sel. f l * g l) - d * (\<Sum>l\<leftarrow>sel. f l) - c * (\<Sum>l\<leftarrow>sel. g l)
       + real (length sel) * c * d"
  for f :: "'a \<Rightarrow> real"
  by (induction sel) (simp_all add: algebra_simps)

lemma sum_residuals:
  "(\<Sum>l\<leftarrow>sel. g l - (a * f l + b))
     = (\<Sum>l\<leftarrow>sel. g l) - a * (\<Sum>l\<leftarrow>sel. f l) - real (length sel) * b"
  for f :: "'a \<Rightarrow> real"
  by (induction sel) (simp_all add: algebra_simps)

lemma sum_residuals_times:
  "(\<Sum>l\<leftarrow>sel. (g l - (a * f l + b)) * f l)
     = (\<Sum>l\<leftarrow>sel. f l * g l) - a * (\<Sum>l\<leftarrow>sel. (f l)\<^sup>2) - b * (\<Sum>l\<leftarrow>sel. f l)"
  for f :: "'a \<Rightarrow> real"
  by (induction sel) (simp_all add: algebra_simps power2_eq_square)

lemma squared_residuals_shift:
  "(\<Sum>l\<leftarrow>sel. (g l - (a' * f l + b'))\<^sup>2)
     = (\<Sum>l\<leftarrow>sel. (g l - (a * f l + b))\<^sup>2)
       + 2 * ((a - a') * (\<Sum>l\<leftarrow>sel. (g l - (a * f l + b)) * f l)
              + (b - b') * (\<Sum>l\<leftarrow>sel. g l - (a * f l + b)))
       + (\<Sum>l\<leftarrow>sel. ((a - a') * f l + (b - b'))\<^sup>2)"
  for f :: "'a \<Rightarrow> real"
  by (induction sel) (simp_all add: algebra_simps power2_eq_square)

lemma sum_squares_zero_iff:
  "(\<Sum>l\<leftarrow>sel. (h l)\<^sup>2) = 0 \<longleftrightarrow> (\<forall>l \<in> set sel. h l = 0)"
  for h :: "'a \<Rightarrow> real"
proof -
  have "(sum_list (map (\<lambda>l. (h l)\<^sup>2) sel) = 0)
      = (\<forall>v \<in> set (map (\<lambda>l. (h l)\<^sup>2) sel). v = 0)"
    by (rule sum_list_nonneg_eq_0_iff) auto
  then show ?thesis
    by simp
qed

lemma sum_constant:
  "\<forall>l \<in> set sel. f l = c \<Longrightarrow> (\<Sum>l\<leftarrow>sel. f l) = real (length sel) * c"
  for f :: "'a \<Rightarrow> real"
  by (induction sel) (simp_all add: algebra_simps)

lemma mean_constant:
  assumes "\<forall>l \<in> set sel. f l = c" and "sel \<noteq> []"
  shows "mean (map f sel) = c"
  using sum_constant [OF assms(1)] assms(2) by (simp add: mean_def)

lemma no_regression_when_constant:
  assumes "\<forall>l \<in> set sel. \<forall>l' \<in> set sel. livingSpace l = livingSpace l'"
  shows "linearRegression sel = None"
proof (cases "length sel < 2")
  case True
  then show ?thesis
    by (simp add: linearRegression_def)
next
  case False
  then obtain l0 where l0: "l0 \<in> set sel"
    by (cases sel) auto
  with assms have c: "\<forall>l \<in> set sel. livingSpace l = livingSpace l0"
    by blast
  from l0 have "sel \<noteq> []"
    by auto
  with c have m: "mean (map livingSpace sel) = livingSpace l0"
    by (rule mean_constant)
  from c have "(\<Sum>l\<leftarrow>sel. (livingSpace l - livingSpace l0)\<^sup>2) = 0"
    by (simp add: sum_squares_zero_iff)
  with m show ?thesis
    by (simp add: linearRegression_def Let_def)
qed

lemma regression_when_distinct:
  assumes l1: "l1 \<in> set sel" and l2: "l2 \<in> set sel"
    and ne: "livingSpace l1 \<noteq> livingSpace l2"
  shows "2 \<le> length sel"
    and "(\<Sum>l\<leftarrow>sel. (livingSpace l - mean (map livingSpace sel))\<^sup>2) \<noteq> 0"
proof -
  from l1 l2 ne have "l1 \<noteq> l2"
    by auto
  with l1 l2 have "card {l1, l2} \<le> card (set sel)"
    by (intro card_mono) auto
  with \<open>l1 \<noteq> l2\<close> have "2 \<le> card (set sel)"
    by simp
  then show "2 \<le> length sel"
    using card_length [of sel] by linarith
  show "(\<Sum>l\<leftarrow>sel. (livingSpace l - mean (map livingSpace sel))\<^sup>2) \<noteq> 0"
  proof
    assume "(\<Sum>l\<leftarrow>sel. (livingSpace l - mean (map livingSpace sel))\<^sup>2) = 0"
    then have "\<forall>l \<in> set sel. livingSpace l - mean (map livingSpace sel) = 0"
      by (simp only: sum_squares_zero_iff)
    with l1 l2 have "livingSpace l1 = livingSpace l2"
      by auto
    with ne show False
      by simp
  qed
qed

text \<open>The normal equations of the regression line.\<close>

lemma normal_equations:
  assumes "linearRegression sel = Some (a, b)"
  shows "(\<Sum>l\<leftarrow>sel. totalRent l - (a * livingSpace l + b)) = 0"
    and "(\<Sum>l\<leftarrow>sel. (totalRent l - (a * livingSpace l + b)) * livingSpace l) = 0"
proof -
  let ?n = "real (length sel)"
  let ?sx = "\<Sum>l\<leftarrow>sel. livingSpace l"
  let ?sy = "\<Sum>l\<leftarrow>sel. totalRent l"
  let ?sxx = "\<Sum>l\<leftarrow>sel. (livingSpace l)\<^sup>2"
  let ?sxy = "\<Sum>l\<leftarrow>sel. livingSpace l * totalRent l"
  let ?xbar = "mean (map livingSpace sel)"
  let ?ybar = "mean (map totalRent sel)"
  let ?dxx = "\<Sum>l\<leftarrow>sel. (livingSpace l - ?xbar)\<^sup>2"
  let ?dxy = "\<Sum>l\<leftarrow>sel. (livingSpace l - ?xbar) * (totalRent l - ?ybar)"
  from assms have len: "2 \<le> length sel"
    by (auto simp: linearRegression_def split: if_splits)
  then have n: "?n \<noteq> 0"
    by auto
  from assms len have dxx: "?dxx \<noteq> 0" and a: "a = ?dxy / ?dxx" and b: "b = ?ybar - a * ?xbar"
    by (auto simp: linearRegression_def Let_def split: if_splits)
  from n have sx: "?sx = ?n * ?xbar" and sy: "?sy = ?n * ?ybar"
    by (simp_all add: mean_def o_def)
  have "?dxx = ?sxx - 2 * ?xbar * ?sx + ?n * ?xbar\<^sup>2"
    by (rule sum_squared_deviations)
  then have dxx_eq: "?dxx = ?sxx - ?n * ?xbar\<^sup>2"
    by (simp add: sx power2_eq_square algebra_simps)
  have "?dxy = ?sxy - ?ybar * ?sx - ?xbar * ?sy + ?n * ?xbar * ?ybar"
    by (rule sum_deviation_products)
  then have dxy_eq: "?dxy = ?sxy - ?n * ?xbar * ?ybar"
    by (simp add: sx sy algebra_simps)
  from a dxx have "a * ?dxx = ?dxy"
    by simp
  then have slope: "a * (?sxx - ?n * ?xbar\<^sup>2) = ?sxy - ?n * ?xbar * ?ybar"
    by (simp only: dxx_eq dxy_eq)
  have "(\<Sum>l\<leftarrow>sel. totalRent l - (a * livingSpace l + b)) = ?sy - a * ?sx - ?n * b"
    by (rule sum_residuals)
  also have "\<dots> = 0"
    by (simp add: sx sy b algebra_simps)
  finally show "(\<Sum>l\<leftarrow>sel. totalRent l - (a * livingSpace l + b)) = 0" .
  have "(\<Sum>l\<leftarrow>sel. (totalRent l - (a * livingSpace l + b)) * livingSpace l)
      = ?sxy - a * ?sxx - b * ?sx"
    by (rule sum_residuals_times)
  also have "\<dots> = (?sxy - ?n * ?xbar * ?ybar) - a * (?sxx - ?n * ?xbar\<^sup>2)"
    by (simp add: sx b algebra_simps power2_eq_square)
  also have "\<dots> = 0"
    using slope by simp
  finally show "(\<Sum>l\<leftarrow>sel. (totalRent l - (a * livingSpace l + b)) * livingSpace l) = 0" .
qed

lemma least_squares:
  assumes "linearRegression sel = Some (a, b)"
  shows "squaredResiduals sel a' b'
     = squaredResiduals sel a b + (\<Sum>l\<leftarrow>sel. ((a - a') * livingSpace l + (b - b'))\<^sup>2)"
  unfolding squaredResiduals_def
  using squared_residuals_shift [of totalRent a' livingSpace b' sel a b]
    normal_equations [OF assms]
  by simp


lemma compute_regression:
  "linearRegression sel = Some (a, b) \<Longrightarrow>
    compute sel = Inr \<lparr>total = length sel, avgPricePerSqm = a,
      stdErr = slopeStdErr sel a b, inequalityIndex = inequalityIndexOf sel\<rparr>"
  by (simp add: compute_def)

lemma least_squares_unique:
  assumes reg: "linearRegression sel = Some (a, b)"
    and l1: "l1 \<in> set sel" and l2: "l2 \<in> set sel"
    and ne: "livingSpace l1 \<noteq> livingSpace l2"
    and eq: "squaredResiduals sel a' b' = squaredResiduals sel a b"
  shows "a' = a \<and> b' = b"
proof -
  from least_squares [OF reg, of a' b'] eq
  have "(\<Sum>l\<leftarrow>sel. ((a - a') * livingSpace l + (b - b'))\<^sup>2) = 0"
    by simp
  then have zero: "\<forall>l \<in> set sel. (a - a') * livingSpace l + (b - b') = 0"
    by (simp only: sum_squares_zero_iff)
  from zero l1 have e1: "(a - a') * livingSpace l1 + (b - b') = 0"
    by blast
  from zero l2 have e2: "(a - a') * livingSpace l2 + (b - b') = 0"
    by blast
  from e1 e2 have "(a - a') * (livingSpace l1 - livingSpace l2) = 0"
    by (simp add: algebra_simps)
  with ne have "a' = a"
    by simp
  with e1 show ?thesis
    by simp
qed

text \<open>The definitions to unfold when the statistics are computed for concrete listings.\<close>

lemmas run_engine = compute_def slopeStdErr_def squaredResiduals_def inequalityIndexOf_def
  partitionSlopes_def List.map_filter_def linearRegression_def flat_def mean_def Let_def
  power2_eq_square

text \<open>
  C1. For a selection with two different living spaces, \<open>compute\<close> returns statistics
  whose \<open>avgPricePerSqm\<close> is the slope of the least-squares line of rent against living
  space with a free intercept: with some intercept it minimises the sum of the squared
  residuals over all lines, and it is the only slope that does. It is not the ratio of the
  means: for the living spaces 50, 60, 70 with the rents 500, 650, 800 the slope is 15 and
  the standard error is 0, while the ratio of the means is 65/6.
\<close>

theorem compute_slope_least_squares:
  "((\<exists>l \<in> set sel. \<exists>l' \<in> set sel. livingSpace l \<noteq> livingSpace l') \<longrightarrow>
      (\<exists>r intercept. compute sel = Inr r \<and> total r = length sel
         \<and> (\<forall>a b. squaredResiduals sel (avgPricePerSqm r) intercept
                    \<le> squaredResiduals sel a b)
         \<and> (\<forall>a b. squaredResiduals sel a b
                     = squaredResiduals sel (avgPricePerSqm r) intercept
                   \<longrightarrow> a = avgPricePerSqm r \<and> b = intercept)))
   \<and> compute [flat 50 500, flat 60 650, flat 70 800]
       = Inr \<lparr>total = 3, avgPricePerSqm = 15, stdErr = Some 0, inequalityIndex = None\<rparr>
   \<and> mean (map totalRent [flat 50 500, flat 60 650, flat 70 800])
       / mean (map livingSpace [flat 50 500, flat 60 650, flat 70 800]) = 65 / 6"
proof (intro conjI impI)
  assume "\<exists>l \<in> set sel. \<exists>l' \<in> set sel. livingSpace l \<noteq> livingSpace l'"
  then obtain l1 l2 where l1: "l1 \<in> set sel" and l2: "l2 \<in> set sel"
    and ne: "livingSpace l1 \<noteq> livingSpace l2"
    by blast
  from regression_when_distinct [OF l1 l2 ne]
  obtain a b where reg: "linearRegression sel = Some (a, b)"
    by (auto simp: linearRegression_def Let_def)
  let ?r = "\<lparr>total = length sel, avgPricePerSqm = a,
      stdErr = slopeStdErr sel a b, inequalityIndex = inequalityIndexOf sel\<rparr>"
  have c: "compute sel = Inr ?r"
    using reg by (rule compute_regression)
  have least: "squaredResiduals sel a b \<le> squaredResiduals sel a' b'" for a' b'
  proof -
    have "0 \<le> (\<Sum>l\<leftarrow>sel. ((a - a') * livingSpace l + (b - b'))\<^sup>2)"
      by (rule sum_list_nonneg) auto
    with least_squares [OF reg, of a' b'] show ?thesis
      by simp
  qed
  have unique: "squaredResiduals sel a' b' = squaredResiduals sel a b \<longrightarrow> a' = a \<and> b' = b"
    for a' b'
    using least_squares_unique [OF reg l1 l2 ne] by blast
  from c least unique
  show "\<exists>r intercept. compute sel = Inr r \<and> total r = length sel
         \<and> (\<forall>a b. squaredResiduals sel (avgPricePerSqm r) intercept
                    \<le> squaredResiduals sel a b)
         \<and> (\<forall>a b. squaredResiduals sel a b
                     = squaredResiduals sel (avgPricePerSqm r) intercept
                   \<longrightarrow> a = avgPricePerSqm r \<and> b = intercept)"
    by (intro exI[of _ ?r] exI[of _ b]) simp
next
  show "compute [flat 50 500, flat 60 650, flat 70 800]
       = Inr \<lparr>total = 3, avgPricePerSqm = 15, stdErr = Some 0, inequalityIndex = None\<rparr>"
    by (simp add: run_engine)
next
  show "mean (map totalRent [flat 50 500, flat 60 650, flat 70 800])
       / mean (map livingSpace [flat 50 500, flat 60 650, flat 70 800]) = 65 / 6"
    by (simp add: mean_def flat_def)
qed

theorem compute_slope_least_squares_witness:
  "compute [flat 40 520, flat 80 1000]
     = Inr \<lparr>total = 2, avgPricePerSqm = 12, stdErr = None, inequalityIndex = None\<rparr>
   \<and> squaredResiduals [flat 40 520, flat 80 1000] 12 40 = 0
   \<and> squaredResiduals [flat 40 520, flat 80 1000] 13 0 = 1600"
  using compute_slope_least_squares [of "[flat 40 520, flat 80 1000]"]
  by (simp add: run_engine)

text \<open>
  C3. For a selection of fewer than two listings, or whose living spaces are all equal,
  \<open>compute\<close> reports \<open>InsufficientData\<close> and returns no statistics, hence no slope.
\<close>

theorem compute_insufficient_data:
  "length sel < 2 \<or> (\<forall>l \<in> set sel. \<forall>l' \<in> set sel. livingSpace l = livingSpace l')
    \<Longrightarrow> compute sel = Inl InsufficientData \<and> (\<forall>r. compute sel \<noteq> Inr r)"
proof -
  assume "length sel < 2 \<or> (\<forall>l \<in> set sel. \<forall>l' \<in> set sel. livingSpace l = livingSpace l')"
  then have "linearRegression sel = None"
  proof
    assume "length sel < 2"
    then show ?thesis
      by (simp add: linearRegression_def)
  next
    assume "\<forall>l \<in> set sel. \<forall>l' \<in> set sel. livingSpace l = livingSpace l'"
    then show ?thesis
      by (rule no_regression_when_constant)
  qed
  then show ?thesis
    by (simp add: compute_def)
qed

theorem compute_insufficient_data_witness:
  "compute [flat 50 500, flat 50 650, flat 50 800] = Inl InsufficientData
   \<and> compute [flat 50 500] = Inl InsufficientData
   \<and> compute [] = Inl InsufficientData"
  using compute_insufficient_data [of "[flat 50 500, flat 50 650, flat 50 800]"]
    compute_insufficient_data [of "[flat 50 500]"] compute_insufficient_data [of "[]"]
  by (simp add: flat_def)

section \<open>Properties of the deciles\<close>

lemma rank_floor:
  "nat \<lfloor>real k * real m / 10\<rfloor> = (k * m) div 10"
proof -
  have "\<lfloor>real (k * m) / real (10::nat)\<rfloor> = int ((k * m) div 10)"
    by (rule floor_divide_of_nat_eq)
  then show ?thesis
    by simp
qed

lemma rank_fraction:
  "real k * real m / 10 - real ((k * m) div 10) = real ((k * m) mod 10) / 10"
proof -
  have "k * m = 10 * ((k * m) div 10) + (k * m) mod 10"
    by simp
  then have "real (k * m) = real (10 * ((k * m) div 10) + (k * m) mod 10)"
    by (rule arg_cong)
  then have "real k * real m = 10 * real ((k * m) div 10) + real ((k * m) mod 10)"
    by (simp only: of_nat_add of_nat_mult of_nat_numeral)
  then show ?thesis
    by (simp add: field_simps)
qed

lemma rank_in_range:
  fixes k n :: nat
  assumes "k \<le> 9" and "2 \<le> n"
  shows "(k * (n - 1)) div 10 + 1 < n"
proof -
  from assms(1) have "k * (n - 1) \<le> 9 * (n - 1)"
    by (rule mult_le_mono1)
  then have "(k * (n - 1)) div 10 \<le> (9 * (n - 1)) div 10"
    by (rule div_le_mono)
  with assms(2) show ?thesis
    by linarith
qed

lemma length_decilesOf:
  "length (decilesOf sel) = (if length sel < 2 then 0 else 9)"
  by (simp add: decilesOf_def Let_def)

lemma nth_decilesOf:
  assumes "2 \<le> length sel" and "1 \<le> k" and "k \<le> 9"
  shows "decilesOf sel ! (k - 1) = decileAt (sort (map pricePerArea sel)) k"
proof -
  from assms(2,3) have "[1..<10] ! (k - 1) = k"
    by (simp add: nth_upt)
  with assms show ?thesis
    by (simp add: decilesOf_def Let_def)
qed

text \<open>
  C4. For a selection of at least two listings there are exactly 9 boundaries, and the
  boundary \<open>k\<close> (for \<open>k\<close> from 1 to 9) is read in the ascending list of the prices per
  area \<open>totalRent / livingSpace\<close> at the rank \<open>k * (n - 1) / 10\<close> counted from 0: the
  value at the whole part of the rank plus the fraction of the rank times the step to the
  next value, which exists. A selection of fewer than two listings has no deciles.
\<close>

theorem deciles_interpolate_order_statistics:
  "(2 \<le> length sel \<longrightarrow>
      length (decilesOf sel) = 9
    \<and> (\<forall>k \<in> {1..9}.
         let vs = sort (map (\<lambda>l. totalRent l / livingSpace l) sel);
             rank = real k * real (length sel - 1) / 10;
             lower = nat \<lfloor>rank\<rfloor>
         in lower + 1 < length vs
          \<and> decilesOf sel ! (k - 1)
              = vs ! lower + (rank - real lower) * (vs ! (lower + 1) - vs ! lower)))
   \<and> (length sel < 2 \<longrightarrow> decilesOf sel = [])"
proof (intro conjI impI ballI)
  assume "2 \<le> length sel"
  then show "length (decilesOf sel) = 9"
    by (simp add: length_decilesOf)
next
  fix k :: nat
  assume len: "2 \<le> length sel" and k: "k \<in> {1..9}"
  let ?vs = "sort (map (\<lambda>l. totalRent l / livingSpace l) sel)"
  let ?rank = "real k * real (length sel - 1) / 10"
  have vs: "sort (map pricePerArea sel) = ?vs"
    by (simp add: pricePerArea_def [abs_def])
  have lower: "nat \<lfloor>?rank\<rfloor> = (k * (length sel - 1)) div 10"
    by (rule rank_floor)
  from k have "k \<le> 9"
    by simp
  from rank_in_range [OF this len]
  have range: "(k * (length sel - 1)) div 10 + 1 < length ?vs"
    by simp
  from k have "1 \<le> k"
    by simp
  from nth_decilesOf [OF len this \<open>k \<le> 9\<close>]
  have "decilesOf sel ! (k - 1) = decileAt ?vs k"
    by (simp only: vs)
  also have "\<dots> = ?vs ! ((k * (length sel - 1)) div 10)
      + (?rank - real ((k * (length sel - 1)) div 10))
        * (?vs ! ((k * (length sel - 1)) div 10 + 1) - ?vs ! ((k * (length sel - 1)) div 10))"
    by (simp add: decileAt_def Let_def rank_fraction)
  finally show "let vs = ?vs; rank = ?rank; lower = nat \<lfloor>rank\<rfloor>
         in lower + 1 < length vs
          \<and> decilesOf sel ! (k - 1)
              = vs ! lower + (rank - real lower) * (vs ! (lower + 1) - vs ! lower)"
    using range by (simp only: Let_def lower)
next
  assume "length sel < 2"
  then show "decilesOf sel = []"
    by (simp add: decilesOf_def)
qed

text \<open>The definitions to unfold when deciles are computed for concrete listings.\<close>

lemmas run_deciles = decilesOf_def decileAt_def pricePerArea_def flat_def Let_def upt_rec

theorem deciles_interpolate_order_statistics_witness:
  "decilesOf [flat 10 200, flat 10 100] = [11, 12, 13, 14, 15, 16, 17, 18, 19]
   \<and> decilesOf [flat 10 200] = []
   \<and> decilesOf [] = []"
  using deciles_interpolate_order_statistics [of "[flat 10 200, flat 10 100]"]
    deciles_interpolate_order_statistics [of "[flat 10 200]"]
  by (simp add: run_deciles)

section \<open>Properties of the selection\<close>

text \<open>The definitions to unfold when concrete listings are selected.\<close>

lemmas run_select = select_def matches_def haversine_def radians_def flat_def aroundFlats_def
  Let_def

text \<open>
  C2, as stated, fails for a query with a limit: of two listings at the center with living
  spaces inside the bounds and no room filter, the query with limit 1 selects the first
  only, although the second one passes the distance test and every attribute filter.
\<close>

theorem select_limit_counterexample:
  "flat 60 650 \<in> set [flat 50 500, flat 60 650]
   \<and> haversine (center (aroundFlats (Some 1))) (latitude (flat 60 650), longitude (flat 60 650))
       \<le> radiusKm (aroundFlats (Some 1))
   \<and> minLivingSpace (aroundFlats (Some 1)) \<le> livingSpace (flat 60 650)
   \<and> livingSpace (flat 60 650) \<le> maxLivingSpace (aroundFlats (Some 1))
   \<and> rooms' (aroundFlats (Some 1)) = None
   \<and> flat 60 650 \<notin> set (select [flat 50 500, flat 60 650] (aroundFlats (Some 1)))"
  by (simp add: run_select)

lemma matches_iff:
  "matches query l \<longleftrightarrow>
     haversine (center query) (latitude l, longitude l) \<le> radiusKm query
   \<and> minLivingSpace query \<le> livingSpace l \<and> livingSpace l \<le> maxLivingSpace query
   \<and> (rooms' query = None
      \<or> (\<exists>rs r. rooms' query = Some rs \<and> rooms l = Some r \<and> r \<in> rs))"
  by (auto simp: matches_def split: option.splits)

text \<open>
  C2, amended. Every selected listing is a listing of the store whose haversine distance
  to the center is at most \<open>radiusKm\<close>, whose living space is within the two bounds and,
  when there is a room filter, whose number of rooms is known and in the filter. When
  the query has no limit (absent, or not positive), the selection holds exactly these
  listings; with a positive limit \<open>n\<close> it is the first \<open>n\<close> of them in store order.
\<close>

theorem select_first_matching_listings:
  "(l \<in> set (select store query) \<longrightarrow>
      l \<in> set store
    \<and> haversine (center query) (latitude l, longitude l) \<le> radiusKm query
    \<and> minLivingSpace query \<le> livingSpace l \<and> livingSpace l \<le> maxLivingSpace query
    \<and> (rooms' query = None
       \<or> (\<exists>rs r. rooms' query = Some rs \<and> rooms l = Some r \<and> r \<in> rs)))
   \<and> (limit' query = None \<or> (\<exists>n. limit' query = Some n \<and> n \<le> 0) \<longrightarrow>
       (l \<in> set (select store query) \<longleftrightarrow>
          l \<in> set store
        \<and> haversine (center query) (latitude l, longitude l) \<le> radiusKm query
        \<and> minLivingSpace query \<le> livingSpace l \<and> livingSpace l \<le> maxLivingSpace query
        \<and> (rooms' query = None
           \<or> (\<exists>rs r. rooms' query = Some rs \<and> rooms l = Some r \<and> r \<in> rs))))
   \<and> (\<forall>n. limit' query = Some n \<and> 0 < n \<longrightarrow>
        select store query = take (nat n) (filter (matches query) store))"
proof -
  have sub: "set (select store query) \<subseteq> set (filter (matches query) store)"
    by (auto simp: select_def Let_def split: option.splits dest: in_set_takeD)
  have all: "limit' query = None \<or> (\<exists>n. limit' query = Some n \<and> n \<le> 0)
      \<Longrightarrow> select store query = filter (matches query) store"
    by (auto simp: select_def Let_def)
  have first: "limit' query = Some n \<and> 0 < n
      \<Longrightarrow> select store query = take (nat n) (filter (matches query) store)" for n
    by (auto simp: select_def Let_def)
  from sub all first show ?thesis
    unfolding matches_iff [symmetric] by auto
qed

theorem select_first_matching_listings_witness:
  "select [flat 50 500, flat 250 650, flat 70 800] (aroundFlats None)
     = [flat 50 500, flat 70 800]
   \<and> select [flat 50 500, flat 250 650, flat 70 800] (aroundFlats (Some 1)) = [flat 50 500]"
  using select_first_matching_listings
    [of "flat 50 500" "[flat 50 500, flat 250 650, flat 70 800]" "aroundFlats None"]
  by (simp add: run_select)

end
